theory Spec2Isabelle
  imports Main "HOL-Library.Char_ord" "HOL-Library.List_Lexorder" "HOL-Library.Multiset"
begin

section \<open>Data model\<close>

text \<open>
  The component manages one DynamoDB table. JavaScript objects become records; a key that may
  be missing (\<open>undefined\<close>) or \<open>null\<close> becomes an \<open>option\<close> field. Record fields share
  one name space, so the fields of the different objects carry a short prefix:
  \<open>t_\<close> for the normalised table that \<open>describeTable\<close> returns, \<open>in_\<close> for the inputs of
  \<open>deploy\<close>, \<open>state_\<close> for \<open>this.state\<close>, \<open>out_\<close> for the outputs, \<open>ct_\<close> and \<open>ut_\<close> for the
  parameters of the provider's create-table and update-table operations. The fields of the
  merged \<open>config\<close> and of the provider's table description keep the names of the source.
\<close>

record attribute_definition =
  AttributeName :: string
  AttributeType :: string

record key_schema_element =
  KeyAttributeName :: string
  KeyType :: string

record secondary_index =
  IndexName :: string
  IndexKeySchema :: "key_schema_element list"
  ProjectionType :: string

text \<open>The object \<open>{ IndexName }\<close> built for a deletion: it has the index name and nothing else.\<close>

record index_key =
  DeletedIndexName :: string

record stream_spec =
  StreamEnabled :: "bool option"
  StreamViewType :: "string option"

record replica =
  RegionName :: string

text \<open>\<open>data.Table\<close> and \<open>res.TableDescription\<close>, as the provider sends them.\<close>

record table_description =
  TableArn :: string
  TableName :: string
  AttributeDefinitions :: "attribute_definition list"
  KeySchema :: "key_schema_element list"
  GlobalSecondaryIndexes :: "secondary_index list option"
  StreamSpecification :: "stream_spec option"
  LatestStreamArn :: "string option"
  Replicas :: "replica list option"

text \<open>The object that \<open>describeTable\<close> builds from \<open>data.Table\<close>.\<close>

record table =
  t_arn :: string
  t_name :: string
  t_attributeDefinitions :: "attribute_definition list"
  t_keySchema :: "key_schema_element list"
  t_globalSecondaryIndexes :: "secondary_index list option"
  t_stream :: "stream_spec option"
  t_streamArn :: "string option"
  t_replicas :: "replica list option"

text \<open>What \<open>describeTable\<close> returns: the object, \<open>null\<close>, or \<open>undefined\<close>.\<close>

datatype observed = Described table | JsNull | JsUndefined

text \<open>A stream identifier as the component stores it: the string, or \<open>false\<close>.\<close>

datatype stream_arn = NoStreamArn | StreamArn string

record index_updates =
  Create :: "secondary_index option"
  Delete :: "index_key option"

datatype replica_update = CreateReplica string | DeleteReplica string

record create_table_input =
  ct_TableName :: "string option"
  ct_AttributeDefinitions :: "attribute_definition list"
  ct_KeySchema :: "key_schema_element list"
  ct_GlobalSecondaryIndexes :: "secondary_index list option"
  ct_LocalSecondaryIndexes :: "secondary_index list option"
  ct_BillingMode :: string
  ct_StreamSpecification :: "stream_spec option"

record update_table_input =
  ut_TableName :: "string option"
  ut_AttributeDefinitions :: "attribute_definition list option"
  ut_BillingMode :: "string option"
  ut_GlobalSecondaryIndexUpdates :: "index_updates list option"
  ut_StreamSpecification :: "stream_spec option"
  ut_ReplicaUpdates :: "replica_update list option"

text \<open>The client \<open>new AWS.DynamoDB({ region, credentials })\<close>.\<close>

record client =
  client_region :: "string option"
  client_credentials :: "(string \<times> string) list"

datatype request =
    CreateTableReq create_table_input
  | DescribeTableReq "string option"
  | UpdateTableReq update_table_input
  | WaitForTableExists "string option"
  | DeleteTableReq "string option"

text \<open>
  What a run does to the outside world, in order: calls of the provider and the pauses of the
  poller (\<open>setTimeout\<close>, in milliseconds).
\<close>

datatype event = Call client request | Sleep nat

datatype aws_error = AwsError (code: string)

text \<open>
  The provider is outside the program. Its answer to a call may depend on everything that
  happened before, so it is a function of the events so far and of the call.
\<close>

record provider =
  createTable_response :: "event list \<Rightarrow> client \<Rightarrow> create_table_input \<Rightarrow> aws_error + table_description"
  describeTable_response :: "event list \<Rightarrow> client \<Rightarrow> string option \<Rightarrow> aws_error + table_description"
  updateTable_response :: "event list \<Rightarrow> client \<Rightarrow> update_table_input \<Rightarrow> aws_error + table_description"
  waitFor_response :: "event list \<Rightarrow> client \<Rightarrow> string option \<Rightarrow> aws_error + unit"
  deleteTable_response :: "event list \<Rightarrow> client \<Rightarrow> string option \<Rightarrow> aws_error + table_description"

text \<open>
  The exceptions of the program. The source throws plain \<open>Error\<close> objects that differ in
  their message, the provider's errors, and the \<open>TypeError\<close> of the language when a property
  of \<open>null\<close> or \<open>undefined\<close> is read.
\<close>

datatype error =
    MissingCredentialsError
  | NameChangeError
  | RegionChangeError
  | StreamArnError
  | ProviderError aws_error
  | TypeError

record inputs =
  in_name :: "string option"
  in_region :: "string option"
  in_attributeDefinitions :: "attribute_definition list option"
  in_keySchema :: "key_schema_element list option"
  in_globalSecondaryIndexes :: "secondary_index list option"
  in_localSecondaryIndexes :: "secondary_index list option"
  in_stream :: "stream_spec option"
  in_replicas :: "replica list option"
  in_deletionPolicy :: "string option"

record config =
  name :: "string option"
  region :: string
  attributeDefinitions :: "attribute_definition list"
  keySchema :: "key_schema_element list"
  globalSecondaryIndexes :: "secondary_index list"
  localSecondaryIndexes :: "secondary_index list option"
  stream :: stream_spec
  replicas :: "replica list"
  deletionPolicy :: "string option"

text \<open>\<open>this.state\<close>, the record that is carried from one run to the next.\<close>

record state =
  state_name :: "string option"
  state_arn :: "string option"
  state_region :: "string option"
  state_streamArn :: "stream_arn option"
  state_deletionPolicy :: "string option"

record outputs =
  out_name :: "string option"
  out_arn :: "string option"
  out_region :: "string option"
  out_streamArn :: "stream_arn option"

datatype remove_result = EmptyObject | ReturnedUndefined | Outputs outputs

section \<open>Helpers of the language and of the ramda library\<close>

text \<open>Truthiness of a string that may be missing: \<open>undefined\<close>, \<open>null\<close> and \<open>""\<close> are falsy.\<close>

fun truthy :: "string option \<Rightarrow> bool" where
  "truthy None = False"
| "truthy (Some s) = (s \<noteq> [])"

text \<open>Truthiness of \<open>StreamEnabled\<close>: only \<open>true\<close> is truthy.\<close>

fun enabled :: "stream_spec \<Rightarrow> bool" where
  "enabled s = (StreamEnabled s = Some True)"

text \<open>
  \<open>difference\<close> of ramda: the elements of the first list that are not in the second, without
  duplicates, in the order of their first occurrence. The library keeps a set of the values to
  leave out, which starts as the second list and grows with every value it emits.
\<close>

fun difference_from :: "'a list \<Rightarrow> 'a list \<Rightarrow> 'a list" where
  "difference_from seen [] = []"
| "difference_from seen (x # xs) =
     (if x \<in> set seen then difference_from seen xs
      else x # difference_from (x # seen) xs)"

definition difference :: "'a list \<Rightarrow> 'a list \<Rightarrow> 'a list" where
  "difference first second = difference_from second first"

text \<open>\<open>isEmpty\<close> of ramda on the object \<open>indexUpdates\<close>: it has no key.\<close>

definition isEmpty_updates :: "index_updates \<Rightarrow> bool" where
  "isEmpty_updates u = (Create u = None \<and> Delete u = None)"

section \<open>utils.js\<close>

text \<open>A parameter with the default \<open>[]\<close>: the default replaces \<open>undefined\<close>.\<close>

fun or_empty :: "'a list option \<Rightarrow> 'a list" where
  "or_empty None = []"
| "or_empty (Some xs) = xs"

text \<open>\<open>xs.findIndex(element => element.IndexName === n) === -1\<close>\<close>

definition not_found_in :: "secondary_index list \<Rightarrow> string \<Rightarrow> bool" where
  "not_found_in xs n = (find (\<lambda>element. IndexName element = n) xs = None)"

definition toCreate :: "secondary_index list \<Rightarrow> secondary_index list \<Rightarrow> secondary_index list" where
  "toCreate prevGlobalSecondaryIndexes gsis =
     filter (\<lambda>g. not_found_in prevGlobalSecondaryIndexes (IndexName g)) gsis"

definition toDelete :: "secondary_index list \<Rightarrow> secondary_index list \<Rightarrow> index_key list" where
  "toDelete prevGlobalSecondaryIndexes gsis =
     map (\<lambda>p. \<lparr>DeletedIndexName = IndexName p\<rparr>)
       (filter (\<lambda>p. not_found_in gsis (IndexName p)) prevGlobalSecondaryIndexes)"

text \<open>\<open>xs.length ? xs[0] : (key not set)\<close>\<close>

fun first_of :: "'a list \<Rightarrow> 'a option" where
  "first_of [] = None"
| "first_of (x # xs) = Some x"

text \<open>
  \<open>getGlobalIndexesUpdates\<close>. The two messages it prints when more than one index is waiting
  have no effect on its result and are left out.
\<close>

definition getGlobalIndexesUpdates ::
  "secondary_index list option \<Rightarrow> secondary_index list option \<Rightarrow> index_updates" where
  "getGlobalIndexesUpdates prevGlobalSecondaryIndexes gsis =
     \<lparr>Create = first_of (toCreate (or_empty prevGlobalSecondaryIndexes) (or_empty gsis)),
      Delete = first_of (toDelete (or_empty prevGlobalSecondaryIndexes) (or_empty gsis))\<rparr>"

text \<open>\<open>getStreamUpdates\<close>: the specification to send, or \<open>null\<close> (here \<open>None\<close>).\<close>

definition getStreamUpdates :: "stream_spec option \<Rightarrow> stream_spec option \<Rightarrow> stream_spec option" where
  "getStreamUpdates prevStream strm =
     (let disabledStream =
            ((case prevStream of None \<Rightarrow> False | Some p \<Rightarrow> enabled p) \<and>
             (case strm of None \<Rightarrow> True | Some s \<Rightarrow> \<not> enabled s));
          enabledStream =
            ((case prevStream of None \<Rightarrow> True | Some p \<Rightarrow> \<not> enabled p) \<and>
             (case strm of None \<Rightarrow> False | Some s \<Rightarrow> enabled s))
      in if disabledStream then Some \<lparr>StreamEnabled = Some False, StreamViewType = None\<rparr>
         else if enabledStream then strm
         else None)"

text \<open>The parameters that \<open>updateTable\<close> passes to the provider.\<close>

definition updateTable_params ::
  "secondary_index list option \<Rightarrow> secondary_index list option \<Rightarrow> string option \<Rightarrow>
   attribute_definition list \<Rightarrow> stream_spec option \<Rightarrow> stream_spec option \<Rightarrow> update_table_input" where
  "updateTable_params prevGlobalSecondaryIndexes gsis nm attrs prevStream strm =
     (let indexUpdates = getGlobalIndexesUpdates prevGlobalSecondaryIndexes gsis;
          streamUpdates = getStreamUpdates prevStream strm
      in \<lparr>ut_TableName = nm,
          ut_AttributeDefinitions = Some attrs,
          ut_BillingMode = Some ''PAY_PER_REQUEST'',
          ut_GlobalSecondaryIndexUpdates =
            (if \<not> isEmpty_updates indexUpdates then Some [indexUpdates] else None),
          ut_StreamSpecification = streamUpdates,
          ut_ReplicaUpdates = None\<rparr>)"

text \<open>\<open>x || false\<close> for a stream identifier that may be missing or empty.\<close>

fun or_false :: "string option \<Rightarrow> stream_arn" where
  "or_false None = NoStreamArn"
| "or_false (Some s) = (if s = [] then NoStreamArn else StreamArn s)"

text \<open>The string in a truthy value.\<close>

fun string_of :: "string option \<Rightarrow> string" where
  "string_of None = []"
| "string_of (Some s) = s"

text \<open>
  Every function that awaits the provider takes the events so far and returns them with its
  own appended; a thrown exception is the \<open>Inl\<close> of the result.
\<close>

definition createTable ::
  "provider \<Rightarrow> client \<Rightarrow> config \<Rightarrow> event list \<Rightarrow> (error + string \<times> stream_arn) \<times> event list" where
  "createTable pv dynamodb cfg log =
     (let params =
            \<lparr>ct_TableName = name cfg,
             ct_AttributeDefinitions = attributeDefinitions cfg,
             ct_KeySchema = keySchema cfg,
             ct_GlobalSecondaryIndexes =
               (if length (globalSecondaryIndexes cfg) \<noteq> 0
                then Some (globalSecondaryIndexes cfg) else None),
             ct_LocalSecondaryIndexes = localSecondaryIndexes cfg,
             ct_BillingMode = ''PAY_PER_REQUEST'',
             ct_StreamSpecification = Some (stream cfg)\<rparr>;
          log' = log @ [Call dynamodb (CreateTableReq params)]
      in case createTable_response pv log dynamodb params of
           Inl e \<Rightarrow> (Inl (ProviderError e), log')
         | Inr res \<Rightarrow> (Inr (TableArn res, or_false (LatestStreamArn res)), log'))"

text \<open>
  \<open>describeTable\<close>. The \<open>catch\<close> block sets \<open>res = null\<close> for the code
  \<open>ResourceNotFoundException\<close> and does nothing for any other error, and the \<open>finally\<close> block
  returns \<open>res\<close>: after another error \<open>res\<close> was never assigned, and the function returns
  \<open>undefined\<close>. It never throws.
\<close>

definition describeTable ::
  "provider \<Rightarrow> client \<Rightarrow> string option \<Rightarrow> event list \<Rightarrow> observed \<times> event list" where
  "describeTable pv dynamodb nm log =
     (case describeTable_response pv log dynamodb nm of
        Inr data \<Rightarrow>
          Described
            \<lparr>t_arn = TableArn data,
             t_name = TableName data,
             t_attributeDefinitions = AttributeDefinitions data,
             t_keySchema = KeySchema data,
             t_globalSecondaryIndexes = GlobalSecondaryIndexes data,
             t_stream = StreamSpecification data,
             t_streamArn = LatestStreamArn data,
             t_replicas = Replicas data\<rparr>
      | Inl err \<Rightarrow> (if code err = ''ResourceNotFoundException'' then JsNull else JsUndefined),
      log @ [Call dynamodb (DescribeTableReq nm)])"

definition maxTries :: nat where
  "maxTries = 5"

text \<open>
  The \<open>do ... while\<close> loop of \<open>getStreamArn\<close>, from the value of \<open>tries\<close> at the start of a
  round. Destructuring \<open>null\<close> or \<open>undefined\<close> throws a \<open>TypeError\<close>.
\<close>

function getStreamArn_loop ::
  "provider \<Rightarrow> client \<Rightarrow> string option \<Rightarrow> nat \<Rightarrow> event list \<Rightarrow> (error + string) \<times> event list" where
  "getStreamArn_loop pv dynamodb nm tries log =
     (case describeTable pv dynamodb nm (log @ [Sleep 10000]) of
        (Described t, log') \<Rightarrow>
          (if truthy (t_streamArn t) then (Inr (string_of (t_streamArn t)), log')
           else if Suc tries < maxTries then getStreamArn_loop pv dynamodb nm (Suc tries) log'
           else (Inl StreamArnError, log'))
      | (JsNull, log') \<Rightarrow> (Inl TypeError, log')
      | (JsUndefined, log') \<Rightarrow> (Inl TypeError, log'))"
  by pat_completeness auto
termination
  by (relation "measure (\<lambda>(pv, dynamodb, nm, tries, log). maxTries - tries)") auto

declare getStreamArn_loop.simps [simp del]

definition getStreamArn ::
  "provider \<Rightarrow> client \<Rightarrow> string option \<Rightarrow> event list \<Rightarrow> (error + string) \<times> event list" where
  "getStreamArn pv dynamodb nm log = getStreamArn_loop pv dynamodb nm 0 log"

text \<open>
  \<open>updateTable\<close>. The call is made in every case; \<open>stream.StreamEnabled\<close> is read after it, and
  the poller runs when it is truthy.
\<close>

definition updateTable ::
  "provider \<Rightarrow> client \<Rightarrow> secondary_index list option \<Rightarrow> secondary_index list option \<Rightarrow>
   string option \<Rightarrow> attribute_definition list \<Rightarrow> stream_spec option \<Rightarrow> stream_spec option \<Rightarrow>
   event list \<Rightarrow> (error + string \<times> stream_arn) \<times> event list" where
  "updateTable pv dynamodb prevGlobalSecondaryIndexes gsis nm attrs prevStream strm log =
     (let params = updateTable_params prevGlobalSecondaryIndexes gsis nm attrs prevStream strm;
          log1 = log @ [Call dynamodb (UpdateTableReq params)]
      in case updateTable_response pv log dynamodb params of
           Inl e \<Rightarrow> (Inl (ProviderError e), log1)
         | Inr res \<Rightarrow>
             (case strm of
                None \<Rightarrow> (Inl TypeError, log1)
              | Some s \<Rightarrow>
                  if enabled s then
                    (case getStreamArn pv dynamodb nm log1 of
                       (Inl e, log2) \<Rightarrow> (Inl e, log2)
                     | (Inr a, log2) \<Rightarrow> (Inr (TableArn res, StreamArn a), log2))
                  else (Inr (TableArn res, NoStreamArn), log1)))"

definition waitForActive ::
  "provider \<Rightarrow> client \<Rightarrow> string option \<Rightarrow> event list \<Rightarrow> (error + unit) \<times> event list" where
  "waitForActive pv dynamodb nm log =
     (case waitFor_response pv log dynamodb nm of
        Inl e \<Rightarrow> Inl (ProviderError e)
      | Inr u \<Rightarrow> Inr (),
      log @ [Call dynamodb (WaitForTableExists nm)])"

text \<open>The parameters of an update-table call that changes replicas only.\<close>

definition replica_params :: "string option \<Rightarrow> replica_update list \<Rightarrow> update_table_input" where
  "replica_params nm ups =
     \<lparr>ut_TableName = nm,
      ut_AttributeDefinitions = None,
      ut_BillingMode = None,
      ut_GlobalSecondaryIndexUpdates = None,
      ut_StreamSpecification = None,
      ut_ReplicaUpdates = Some ups\<rparr>"

text \<open>A provider call whose result is not used: only success or the error matters.\<close>

definition call_updateTable ::
  "provider \<Rightarrow> client \<Rightarrow> update_table_input \<Rightarrow> event list \<Rightarrow> (error + unit) \<times> event list" where
  "call_updateTable pv dynamodb params log =
     (case updateTable_response pv log dynamodb params of
        Inl e \<Rightarrow> Inl (ProviderError e)
      | Inr res \<Rightarrow> Inr (),
      log @ [Call dynamodb (UpdateTableReq params)])"

definition updateReplicas ::
  "provider \<Rightarrow> client \<Rightarrow> string option \<Rightarrow> replica list \<Rightarrow> replica list \<Rightarrow> event list \<Rightarrow>
   (error + unit) \<times> event list" where
  "updateReplicas pv dynamodb nm prevReplicas rs log =
     (let prevRegions = sort (map RegionName prevReplicas);
          currentRegions = sort (map RegionName rs)
      in if prevRegions = currentRegions then (Inr (), log)
         else
           let addReplicas = map CreateReplica (difference currentRegions prevRegions);
               deleteReplicas = map DeleteReplica (difference prevRegions currentRegions)
           in case waitForActive pv dynamodb nm log of
                (Inl e, log1) \<Rightarrow> (Inl e, log1)
              | (Inr u, log1) \<Rightarrow>
                  call_updateTable pv dynamodb (replica_params nm (addReplicas @ deleteReplicas)) log1)"

definition deleteReplicas ::
  "provider \<Rightarrow> client \<Rightarrow> string option \<Rightarrow> replica list option \<Rightarrow> event list \<Rightarrow>
   (error + unit) \<times> event list" where
  "deleteReplicas pv dynamodb nm rs log =
     (if or_empty rs = [] then (Inr (), log)
      else
        case call_updateTable pv dynamodb
               (replica_params nm (map (\<lambda>r. DeleteReplica (RegionName r)) (or_empty rs))) log of
          (Inl e, log1) \<Rightarrow> (Inl e, log1)
        | (Inr u, log1) \<Rightarrow> waitForActive pv dynamodb nm log1)"

text \<open>
  \<open>deleteTable\<close>: the error \<open>ResourceNotFoundException\<close> is caught and the function returns
  \<open>false\<close>; every other error is thrown again.
\<close>

definition deleteTable ::
  "provider \<Rightarrow> client \<Rightarrow> string option \<Rightarrow> event list \<Rightarrow> (error + bool) \<times> event list" where
  "deleteTable pv dynamodb nm log =
     (case deleteTable_response pv log dynamodb nm of
        Inr res \<Rightarrow> Inr True
      | Inl err \<Rightarrow>
          (if code err \<noteq> ''ResourceNotFoundException'' then Inl (ProviderError err)
           else Inr False),
      log @ [Call dynamodb (DeleteTableReq nm)])"

section \<open>serverless.js\<close>

definition defaults :: config where
  "defaults =
     \<lparr>name = None,
      region = ''us-east-1'',
      attributeDefinitions = [\<lparr>AttributeName = ''id'', AttributeType = ''S''\<rparr>],
      keySchema = [\<lparr>KeyAttributeName = ''id'', KeyType = ''HASH''\<rparr>],
      globalSecondaryIndexes = [],
      localSecondaryIndexes = None,
      stream = \<lparr>StreamEnabled = Some False, StreamViewType = None\<rparr>,
      replicas = [],
      deletionPolicy = None\<rparr>"

text \<open>\<open>a\<close> where the inputs have the key, the default otherwise.\<close>

fun over :: "'a \<Rightarrow> 'a option \<Rightarrow> 'a" where
  "over d None = d"
| "over d (Some a) = a"

text \<open>
  \<open>mergeDeepRight(defaults, inputs)\<close> of ramda: a key of the inputs replaces the default, and
  the two \<open>stream\<close> objects are merged key by key.
\<close>

definition mergeDeepRight :: "config \<Rightarrow> inputs \<Rightarrow> config" where
  "mergeDeepRight d i =
     \<lparr>name = (case in_name i of None \<Rightarrow> name d | Some n \<Rightarrow> Some n),
      region = over (region d) (in_region i),
      attributeDefinitions = over (attributeDefinitions d) (in_attributeDefinitions i),
      keySchema = over (keySchema d) (in_keySchema i),
      globalSecondaryIndexes = over (globalSecondaryIndexes d) (in_globalSecondaryIndexes i),
      localSecondaryIndexes =
        (case in_localSecondaryIndexes i of None \<Rightarrow> localSecondaryIndexes d | Some l \<Rightarrow> Some l),
      stream =
        (case in_stream i of
           None \<Rightarrow> stream d
         | Some s \<Rightarrow>
             \<lparr>StreamEnabled =
                (case StreamEnabled s of None \<Rightarrow> StreamEnabled (stream d) | Some b \<Rightarrow> Some b),
              StreamViewType =
                (case StreamViewType s of None \<Rightarrow> StreamViewType (stream d) | Some v \<Rightarrow> Some v)\<rparr>),
      replicas = over (replicas d) (in_replicas i),
      deletionPolicy =
        (case in_deletionPolicy i of None \<Rightarrow> deletionPolicy d | Some p \<Rightarrow> Some p)\<rparr>"

text \<open>
  The name, lines 48 to 66 of \<open>deploy\<close>. \<open>rnd\<close> is the string that
  \<open>Math.random().toString(36).substring(6)\<close> gives in this run. The first two branches
  assign \<open>this.state.name\<close>.
\<close>

definition resolve_name :: "string \<Rightarrow> state \<Rightarrow> config \<Rightarrow> error + config \<times> state" where
  "resolve_name rnd st cfg =
     (if \<not> truthy (name cfg) \<and> \<not> truthy (state_name st) then
        Inr (cfg\<lparr>name := Some (''dynamodb-table-'' @ rnd)\<rparr>,
             st\<lparr>state_name := Some (''dynamodb-table-'' @ rnd)\<rparr>)
      else if truthy (name cfg) \<and> \<not> truthy (state_name st) then
        Inr (cfg, st\<lparr>state_name := name cfg\<rparr>)
      else if truthy (name cfg) \<and> truthy (state_name st) \<and> name cfg \<noteq> state_name st then
        Inl NameChangeError
      else Inr (cfg, st))"

text \<open>
  The end of \<open>deploy\<close>, lines 108 to 120: the state is assigned, then the replicas are
  reconciled, then the outputs are picked from the configuration.
\<close>

definition finish_deploy ::
  "provider \<Rightarrow> client \<Rightarrow> config \<Rightarrow> state \<Rightarrow> string \<Rightarrow> stream_arn \<Rightarrow> replica list \<Rightarrow> event list \<Rightarrow>
   (error + outputs) \<times> state \<times> event list" where
  "finish_deploy pv dynamodb cfg st arn streamArn prevReplicas log =
     (let st' = st\<lparr>state_arn := Some arn,
                   state_streamArn := Some streamArn,
                   state_name := name cfg,
                   state_region := Some (region cfg),
                   state_deletionPolicy := deletionPolicy cfg\<rparr>
      in case updateReplicas pv dynamodb (name cfg) prevReplicas (replicas cfg) log of
           (Inl e, log') \<Rightarrow> (Inl e, st', log')
         | (Inr u, log') \<Rightarrow>
             (Inr \<lparr>out_name = name cfg,
                   out_arn = Some arn,
                   out_region = Some (region cfg),
                   out_streamArn = Some streamArn\<rparr>, st', log'))"

text \<open>
  \<open>deploy\<close>: the result or the exception, \<open>this.state\<close> as the run leaves it, and the events of
  the run.
\<close>

definition deploy ::
  "provider \<Rightarrow> (string \<times> string) list \<Rightarrow> string \<Rightarrow> state \<Rightarrow> inputs \<Rightarrow>
   (error + outputs) \<times> state \<times> event list" where
  "deploy pv credentials rnd st inp =
     (if length credentials = 0 then (Inl MissingCredentialsError, st, [])
      else
        case resolve_name rnd st (mergeDeepRight defaults inp) of
          Inl e \<Rightarrow> (Inl e, st, [])
        | Inr (cfg, st1) \<Rightarrow>
            (let dynamodb = \<lparr>client_region = Some (region cfg), client_credentials = credentials\<rparr>
             in (case describeTable pv dynamodb (name cfg) [] of
                   (Described prevTable, log1) \<Rightarrow>
                     (if Some (region cfg) \<noteq> state_region st1
                      then (Inl RegionChangeError, st1, log1)
                      else
                        (case updateTable pv dynamodb (t_globalSecondaryIndexes prevTable)
                                (Some (globalSecondaryIndexes cfg)) (name cfg) (attributeDefinitions cfg)
                                (t_stream prevTable) (Some (stream cfg)) log1 of
                           (Inl e, log2) \<Rightarrow> (Inl e, st1, log2)
                         | (Inr (tableArn, streamArn), log2) \<Rightarrow>
                             finish_deploy pv dynamodb cfg st1 (t_arn prevTable) streamArn
                               (or_empty (t_replicas prevTable)) log2))
                 | (absent, log1) \<Rightarrow>
                     (case createTable pv dynamodb cfg log1 of
                        (Inl e, log2) \<Rightarrow> (Inl e, st1, log2)
                      | (Inr (tableArn, streamArn), log2) \<Rightarrow>
                          finish_deploy pv dynamodb cfg st1 tableArn streamArn [] log2))))"

text \<open>\<open>pick(outputsList, this.state)\<close> and the empty state \<open>{}\<close>.\<close>

definition pick_state :: "state \<Rightarrow> outputs" where
  "pick_state st =
     \<lparr>out_name = state_name st,
      out_arn = state_arn st,
      out_region = state_region st,
      out_streamArn = state_streamArn st\<rparr>"

definition empty_state :: state where
  "empty_state =
     \<lparr>state_name = None, state_arn = None, state_region = None,
      state_streamArn = None, state_deletionPolicy = None\<rparr>"

text \<open>
  \<open>remove\<close>. \<open>table.replicas\<close> is read from whatever \<open>describeTable\<close> returned; on \<open>null\<close> or
  \<open>undefined\<close> that read throws a \<open>TypeError\<close>.
\<close>

definition remove ::
  "provider \<Rightarrow> (string \<times> string) list \<Rightarrow> state \<Rightarrow> (error + remove_result) \<times> state \<times> event list" where
  "remove pv credentials st =
     (if \<not> truthy (state_deletionPolicy st) \<or> state_deletionPolicy st \<noteq> Some ''delete'' then
        (Inr EmptyObject, st, [])
      else if \<not> truthy (state_name st) then (Inr ReturnedUndefined, st, [])
      else
        (let dynamodb = \<lparr>client_region = state_region st, client_credentials = credentials\<rparr>
         in (case describeTable pv dynamodb (state_name st) [] of
               (Described tbl, log1) \<Rightarrow>
                 (case deleteReplicas pv dynamodb (state_name st) (t_replicas tbl) log1 of
                    (Inl e, log2) \<Rightarrow> (Inl e, st, log2)
                  | (Inr u, log2) \<Rightarrow>
                      (case deleteTable pv dynamodb (state_name st) log2 of
                         (Inl e, log3) \<Rightarrow> (Inl e, st, log3)
                       | (Inr b, log3) \<Rightarrow> (Inr (Outputs (pick_state st)), empty_state, log3)))
             | (absent, log1) \<Rightarrow> (Inl TypeError, st, log1))))"

section \<open>Vocabulary of the statements\<close>


text \<open>The events of \<open>k\<close> rounds of the poller: a pause of ten seconds, then a describe.\<close>

definition poll_rounds :: "client \<Rightarrow> string option \<Rightarrow> nat \<Rightarrow> event list" where
  "poll_rounds dynamodb nm k =
     concat (replicate k [Sleep 10000, Call dynamodb (DescribeTableReq nm)])"

text \<open>What the poller sees in its round number \<open>i\<close> (from 0) when it starts after \<open>log\<close>.\<close>

definition observation ::
  "provider \<Rightarrow> client \<Rightarrow> string option \<Rightarrow> event list \<Rightarrow> nat \<Rightarrow> observed" where
  "observation pv dynamodb nm log i =
     fst (describeTable pv dynamodb nm (log @ poll_rounds dynamodb nm i @ [Sleep 10000]))"

section \<open>Example runs\<close>

definition creds :: "(string \<times> string) list" where
  "creds = [(''accessKeyId'', ''AKIAEXAMPLE''), (''secretAccessKey'', ''secret'')]"

definition east :: client where
  "east = \<lparr>client_region = Some ''us-east-1'', client_credentials = creds\<rparr>"

definition west :: client where
  "west = \<lparr>client_region = Some ''eu-west-1'', client_credentials = creds\<rparr>"

definition index_named :: "string \<Rightarrow> secondary_index" where
  "index_named n =
     \<lparr>IndexName = n,
      IndexKeySchema = [\<lparr>KeyAttributeName = n, KeyType = ''HASH''\<rparr>],
      ProjectionType = ''ALL''\<rparr>"

definition orders_table :: table_description where
  "orders_table =
     \<lparr>TableArn = ''arn:aws:dynamodb:us-east-1:1:table/orders'',
      TableName = ''orders'',
      AttributeDefinitions = [\<lparr>AttributeName = ''id'', AttributeType = ''S''\<rparr>],
      KeySchema = [\<lparr>KeyAttributeName = ''id'', KeyType = ''HASH''\<rparr>],
      GlobalSecondaryIndexes = None,
      StreamSpecification = None,
      LatestStreamArn = None,
      Replicas = None\<rparr>"

text \<open>A provider that holds the table \<open>orders\<close> and accepts every call.\<close>

definition steady_provider :: provider where
  "steady_provider =
     \<lparr>createTable_response = (\<lambda>log c p. Inr orders_table),
      describeTable_response = (\<lambda>log c n. Inr orders_table),
      updateTable_response = (\<lambda>log c p. Inr orders_table),
      waitFor_response = (\<lambda>log c n. Inr ()),
      deleteTable_response = (\<lambda>log c n. Inr orders_table)\<rparr>"

text \<open>A provider without the table, which also refuses to create it.\<close>

definition absent_provider :: provider where
  "absent_provider =
     \<lparr>createTable_response = (\<lambda>log c p. Inl (AwsError ''LimitExceededException'')),
      describeTable_response = (\<lambda>log c n. Inl (AwsError ''ResourceNotFoundException'')),
      updateTable_response = (\<lambda>log c p. Inl (AwsError ''ResourceNotFoundException'')),
      waitFor_response = (\<lambda>log c n. Inl (AwsError ''ResourceNotFoundException'')),
      deleteTable_response = (\<lambda>log c n. Inl (AwsError ''ResourceNotFoundException''))\<rparr>"

text \<open>A provider that rejects describe-table and delete-table for lack of permission.\<close>

definition denied_provider :: provider where
  "denied_provider =
     steady_provider
       \<lparr>describeTable_response := (\<lambda>log c n. Inl (AwsError ''AccessDeniedException'')),
        deleteTable_response := (\<lambda>log c n. Inl (AwsError ''AccessDeniedException''))\<rparr>"

text \<open>
  A provider that answers by region: the table \<open>orders\<close> is in \<open>us-east-1\<close> and in no other
  region, and a table can be created anywhere.
\<close>

definition regional_provider :: provider where
  "regional_provider =
     steady_provider
       \<lparr>createTable_response :=
          (\<lambda>log c p. Inr (orders_table
                            \<lparr>TableArn := ''arn:aws:dynamodb:eu-west-1:1:table/orders''\<rparr>)),
        describeTable_response :=
          (\<lambda>log c n. if client_region c = Some ''us-east-1'' then Inr orders_table
                      else Inl (AwsError ''ResourceNotFoundException''))\<rparr>"


text \<open>
  A provider whose stream identifier appears late: a describe that comes after fewer than
  five events does not show it yet.
\<close>

definition late_stream_provider :: provider where
  "late_stream_provider =
     steady_provider
       \<lparr>describeTable_response :=
          (\<lambda>log c n. if length log < 5 then Inr orders_table
                      else Inr (orders_table
                             \<lparr>LatestStreamArn :=
                                Some ''arn:aws:dynamodb:us-east-1:1:table/orders/stream/1''\<rparr>))\<rparr>"

definition orders_inputs :: inputs where
  "orders_inputs =
     \<lparr>in_name = Some ''orders'', in_region = None, in_attributeDefinitions = None,
      in_keySchema = None, in_globalSecondaryIndexes = None, in_localSecondaryIndexes = None,
      in_stream = None, in_replicas = None, in_deletionPolicy = None\<rparr>"

text \<open>The state that a first deploy of \<open>orders_inputs\<close> leaves.\<close>

definition deployed_state :: state where
  "deployed_state =
     \<lparr>state_name = Some ''orders'',
      state_arn = Some ''arn:aws:dynamodb:us-east-1:1:table/orders'',
      state_region = Some ''us-east-1'',
      state_streamArn = Some NoStreamArn,
      state_deletionPolicy = None\<rparr>"

section \<open>Auxiliary facts\<close>

lemma not_found_in_iff: "not_found_in xs n \<longleftrightarrow> n \<notin> IndexName ` set xs"
  by (auto simp: not_found_in_def find_None_iff)

lemma first_of_map: "first_of (map f xs) = map_option f (first_of xs)"
  by (cases xs) simp_all

lemma first_of_None: "first_of xs = None \<longleftrightarrow> xs = []"
  by (cases xs) simp_all

lemma sort_eq_iff_mset: "sort xs = sort ys \<longleftrightarrow> mset xs = mset ys"
proof
  assume "sort xs = sort ys"
  then have "mset (sort xs) = mset (sort ys)" by simp
  then show "mset xs = mset ys" by simp
next
  assume "mset xs = mset ys"
  then show "sort xs = sort ys"
    by (intro properties_for_sort) simp_all
qed

lemma updateReplicas_noop:
  "(updateReplicas pv dynamodb nm prev cur log = (Inr (), log))
     = (mset (map RegionName prev) = mset (map RegionName cur))"
  by (auto simp: updateReplicas_def Let_def sort_eq_iff_mset waitForActive_def call_updateTable_def
      split: sum.splits prod.splits)

lemma updateReplicas_same_regions:
  "mset (map RegionName prev) = mset (map RegionName cur) \<Longrightarrow>
   updateReplicas pv dynamodb nm prev cur log = (Inr (), log)"
  by (simp add: updateReplicas_noop)




lemma same_names_no_updates:
  assumes same: "IndexName ` set (or_empty prev) = IndexName ` set (or_empty gsis)"
  shows "getGlobalIndexesUpdates prev gsis = \<lparr>Create = None, Delete = None\<rparr>"
proof -
  have "filter (\<lambda>g. IndexName g \<notin> IndexName ` set (or_empty prev)) (or_empty gsis) = []"
    unfolding same by (simp add: filter_empty_conv)
  moreover have "filter (\<lambda>p. IndexName p \<notin> IndexName ` set (or_empty gsis)) (or_empty prev) = []"
    unfolding same[symmetric] by (simp add: filter_empty_conv)
  ultimately show ?thesis
    by (simp add: getGlobalIndexesUpdates_def toCreate_def toDelete_def not_found_in_iff)
qed

lemma same_stream_no_update:
  "(\<exists>p. prevStream = Some p \<and> enabled p) = enabled s \<Longrightarrow>
   getStreamUpdates prevStream (Some s) = None"
  by (auto simp: getStreamUpdates_def Let_def split: option.splits)

lemma getStreamArn_first_round:
  assumes "describeTable_response pv (log @ [Sleep 10000]) d nm = Inr data"
    and "truthy (LatestStreamArn data)"
  shows "getStreamArn pv d nm log
         = (Inr (string_of (LatestStreamArn data)),
            log @ [Sleep 10000, Call d (DescribeTableReq nm)])"
  using assms unfolding getStreamArn_def
  by (subst getStreamArn_loop.simps) (simp add: describeTable_def)

lemma poll_rounds_0: "poll_rounds d nm 0 = []"
  by (simp add: poll_rounds_def)

lemma poll_rounds_Suc:
  "poll_rounds d nm (Suc k) = [Sleep 10000, Call d (DescribeTableReq nm)] @ poll_rounds d nm k"
  by (simp add: poll_rounds_def)

lemma observation_shift:
  "observation pv d nm (log @ [Sleep 10000, Call d (DescribeTableReq nm)]) i
   = observation pv d nm log (Suc i)"
  by (simp add: observation_def poll_rounds_Suc)

text \<open>The loop, started with \<open>tries\<close> rounds already used.\<close>

lemma getStreamArn_loop_rounds:
  "tries < maxTries \<Longrightarrow>
   \<exists>k. 1 \<le> k \<and> k \<le> maxTries - tries
     \<and> snd (getStreamArn_loop pv d nm tries log) = log @ poll_rounds d nm k
     \<and> (\<forall>i<k - 1. \<exists>t. observation pv d nm log i = Described t \<and> \<not> truthy (t_streamArn t))
     \<and> (case observation pv d nm log (k - 1) of
           Described t \<Rightarrow>
             if truthy (t_streamArn t)
             then fst (getStreamArn_loop pv d nm tries log) = Inr (string_of (t_streamArn t))
             else k = maxTries - tries \<and> fst (getStreamArn_loop pv d nm tries log) = Inl StreamArnError
         | JsNull \<Rightarrow> fst (getStreamArn_loop pv d nm tries log) = Inl TypeError
         | JsUndefined \<Rightarrow> fst (getStreamArn_loop pv d nm tries log) = Inl TypeError)"
proof (induction pv d nm tries log rule: getStreamArn_loop.induct)
  case (1 pv d nm tries log)
  let ?o = "observation pv d nm log 0"
  let ?log' = "log @ [Sleep 10000, Call d (DescribeTableReq nm)]"
  have d0: "describeTable pv d nm (log @ [Sleep 10000]) = (?o, ?log')"
    by (simp add: observation_def poll_rounds_0 describeTable_def)
  have one: "poll_rounds d nm 1 = [Sleep 10000, Call d (DescribeTableReq nm)]"
    by (simp add: poll_rounds_def)
  show ?case
  proof (cases ?o)
    case JsNull
    then have "getStreamArn_loop pv d nm tries log = (Inl TypeError, ?log')"
      using d0 by (subst getStreamArn_loop.simps) simp
    with JsNull 1(2) one show ?thesis by (intro exI[of _ 1]) simp
  next
    case JsUndefined
    then have "getStreamArn_loop pv d nm tries log = (Inl TypeError, ?log')"
      using d0 by (subst getStreamArn_loop.simps) simp
    with JsUndefined 1(2) one show ?thesis by (intro exI[of _ 1]) simp
  next
    case (Described t)
    show ?thesis
    proof (cases "truthy (t_streamArn t)")
      case True
      then have "getStreamArn_loop pv d nm tries log = (Inr (string_of (t_streamArn t)), ?log')"
        using d0 Described by (subst getStreamArn_loop.simps) simp
      with Described True 1(2) one show ?thesis by (intro exI[of _ 1]) simp
    next
      case False
      show ?thesis
      proof (cases "Suc tries < maxTries")
        case last: False
        then have "getStreamArn_loop pv d nm tries log = (Inl StreamArnError, ?log')"
          using d0 Described False by (subst getStreamArn_loop.simps) simp
        moreover from last 1(2) have "maxTries - tries = 1" by simp
        ultimately show ?thesis using Described False one by (intro exI[of _ 1]) simp
      next
        case more: True
        have step: "getStreamArn_loop pv d nm tries log = getStreamArn_loop pv d nm (Suc tries) ?log'"
          using d0 Described False more by (subst getStreamArn_loop.simps) simp
        from 1(1)[OF d0[symmetric] Described False more more]
        obtain k where k: "1 \<le> k" "k \<le> maxTries - Suc tries"
          "snd (getStreamArn_loop pv d nm (Suc tries) ?log') = ?log' @ poll_rounds d nm k"
          "\<forall>i<k - 1. \<exists>t. observation pv d nm ?log' i = Described t \<and> \<not> truthy (t_streamArn t)"
          "(case observation pv d nm ?log' (k - 1) of
             Described t \<Rightarrow>
               if truthy (t_streamArn t)
               then fst (getStreamArn_loop pv d nm (Suc tries) ?log') = Inr (string_of (t_streamArn t))
               else k = maxTries - Suc tries \<and> fst (getStreamArn_loop pv d nm (Suc tries) ?log') = Inl StreamArnError
           | JsNull \<Rightarrow> fst (getStreamArn_loop pv d nm (Suc tries) ?log') = Inl TypeError
           | JsUndefined \<Rightarrow> fst (getStreamArn_loop pv d nm (Suc tries) ?log') = Inl TypeError)"
          by blast
        have a: "1 \<le> Suc k" "Suc k \<le> maxTries - tries" using k(2) more by simp_all
        have b: "snd (getStreamArn_loop pv d nm tries log) = log @ poll_rounds d nm (Suc k)"
          using k(3) step by (simp add: poll_rounds_Suc)
        have c: "\<forall>i<Suc k - 1. \<exists>t. observation pv d nm log i = Described t \<and> \<not> truthy (t_streamArn t)"
        proof (intro allI impI)
          fix i assume i: "i < Suc k - 1"
          show "\<exists>t. observation pv d nm log i = Described t \<and> \<not> truthy (t_streamArn t)"
          proof (cases i)
            case 0
            with Described False show ?thesis by simp
          next
            case (Suc j)
            with i have "j < k - 1" by simp
            with k(4) have "\<exists>t. observation pv d nm ?log' j = Described t \<and> \<not> truthy (t_streamArn t)" by blast
            then show ?thesis using Suc by (simp add: observation_shift)
          qed
        qed
        have e: "observation pv d nm log (Suc k - 1) = observation pv d nm ?log' (k - 1)"
          using k(1) by (cases k) (simp_all add: observation_shift)
        have f: "k = maxTries - Suc tries \<longleftrightarrow> Suc k = maxTries - tries" using more by auto
        have g: "(case observation pv d nm log (Suc k - 1) of
             Described t \<Rightarrow>
               if truthy (t_streamArn t)
               then fst (getStreamArn_loop pv d nm tries log) = Inr (string_of (t_streamArn t))
               else Suc k = maxTries - tries \<and> fst (getStreamArn_loop pv d nm tries log) = Inl StreamArnError
           | JsNull \<Rightarrow> fst (getStreamArn_loop pv d nm tries log) = Inl TypeError
           | JsUndefined \<Rightarrow> fst (getStreamArn_loop pv d nm tries log) = Inl TypeError)"
          using k(5) unfolding e step f .
        from a b c g show ?thesis by (intro exI[of _ "Suc k"]) blast
      qed
    qed
  qed
qed








section \<open>The index reconciler\<close>

text \<open>
  C1: for every pair of previous and desired index lists (a missing list counts as empty), the
  \<open>Create\<close> entry of the result is the first desired index, in list order, whose name no
  previous index has, and is absent when there is none; the \<open>Delete\<close> entry is the object
  holding only the name of the first previous index whose name no desired index has, and is
  absent when there is none. So the result has at most one of each. The update-table
  parameters carry the result as a one-element list, and leave the key out when both
  differences are empty.
\<close>

theorem getGlobalIndexesUpdates_first_of_differences:
  fixes prev gsis :: "secondary_index list option"
  defines "news \<equiv> filter (\<lambda>g. IndexName g \<notin> IndexName ` set (or_empty prev)) (or_empty gsis)"
    and "gone \<equiv> filter (\<lambda>p. IndexName p \<notin> IndexName ` set (or_empty gsis)) (or_empty prev)"
  shows "Create (getGlobalIndexesUpdates prev gsis) = first_of news
       \<and> Delete (getGlobalIndexesUpdates prev gsis)
           = map_option (\<lambda>p. \<lparr>DeletedIndexName = IndexName p\<rparr>) (first_of gone)
       \<and> ut_GlobalSecondaryIndexUpdates (updateTable_params prev gsis nm attrs prevStream strm)
           = (if news = [] \<and> gone = [] then None else Some [getGlobalIndexesUpdates prev gsis])"
  unfolding news_def gone_def
  by (simp add: getGlobalIndexesUpdates_def updateTable_params_def toCreate_def toDelete_def
      not_found_in_iff first_of_map isEmpty_updates_def first_of_None Let_def)

text \<open>
  The example of the specification: previous indexes \<open>a\<close>, \<open>b\<close> and desired indexes \<open>b\<close>, \<open>c\<close>
  give \<open>Create c\<close> and \<open>Delete a\<close>.
\<close>

theorem getGlobalIndexesUpdates_first_of_differences_witness:
  "Create (getGlobalIndexesUpdates (Some [index_named ''a'', index_named ''b''])
             (Some [index_named ''b'', index_named ''c''])) = Some (index_named ''c'')
 \<and> Delete (getGlobalIndexesUpdates (Some [index_named ''a'', index_named ''b''])
             (Some [index_named ''b'', index_named ''c''])) = Some \<lparr>DeletedIndexName = ''a''\<rparr>
 \<and> ut_GlobalSecondaryIndexUpdates
      (updateTable_params (Some [index_named ''a'', index_named ''b''])
         (Some [index_named ''b'', index_named ''c'']) (Some ''orders'') [] None None)
    = Some [getGlobalIndexesUpdates (Some [index_named ''a'', index_named ''b''])
              (Some [index_named ''b'', index_named ''c''])]
 \<and> ut_GlobalSecondaryIndexUpdates
      (updateTable_params (Some [index_named ''a'']) (Some [index_named ''a''])
         (Some ''orders'') [] None None) = None"
  using getGlobalIndexesUpdates_first_of_differences
          [where prev = "Some [index_named ''a'', index_named ''b'']"
             and gsis = "Some [index_named ''b'', index_named ''c'']"
             and nm = "Some ''orders''" and attrs = "[]" and prevStream = None and strm = None]
        getGlobalIndexesUpdates_first_of_differences
          [where prev = "Some [index_named ''a'']" and gsis = "Some [index_named ''a'']"
             and nm = "Some ''orders''" and attrs = "[]" and prevStream = None and strm = None]
  by (simp add: index_named_def)

section \<open>The stream reconciler\<close>

text \<open>
  C2: write \<open>was\<close> for "the previous specification is present and enabled" and \<open>wanted\<close> for
  "the desired specification is present and enabled". If \<open>was\<close> and not \<open>wanted\<close> (a desired
  specification that is missing, or has no \<open>StreamEnabled\<close>, or has it false), the result is
  the disabling specification. If not \<open>was\<close> and \<open>wanted\<close>, the result is the desired
  specification. In the two other cases the result is \<open>null\<close>. The update-table parameters
  have the key \<open>StreamSpecification\<close> exactly when the result is not \<open>null\<close>, with the result
  as its value.
\<close>

theorem getStreamUpdates_decision_table:
  fixes prevStream strm :: "stream_spec option"
  defines "was \<equiv> (\<exists>p. prevStream = Some p \<and> StreamEnabled p = Some True)"
    and "wanted \<equiv> (\<exists>s. strm = Some s \<and> StreamEnabled s = Some True)"
  shows "(was \<and> \<not> wanted \<longrightarrow>
            getStreamUpdates prevStream strm
              = Some \<lparr>StreamEnabled = Some False, StreamViewType = None\<rparr>)
       \<and> (\<not> was \<and> wanted \<longrightarrow> getStreamUpdates prevStream strm = strm)
       \<and> ((was \<longleftrightarrow> wanted) \<longrightarrow> getStreamUpdates prevStream strm = None)
       \<and> ut_StreamSpecification (updateTable_params prev gsis nm attrs prevStream strm)
           = getStreamUpdates prevStream strm"
  unfolding was_def wanted_def
  by (auto simp: getStreamUpdates_def updateTable_params_def Let_def split: option.splits)

text \<open>
  The four cells of the table, the first with a desired specification that lacks
  \<open>StreamEnabled\<close>.
\<close>

theorem getStreamUpdates_decision_table_witness:
  "getStreamUpdates (Some \<lparr>StreamEnabled = Some True, StreamViewType = Some ''NEW_IMAGE''\<rparr>)
     (Some \<lparr>StreamEnabled = None, StreamViewType = Some ''NEW_IMAGE''\<rparr>)
   = Some \<lparr>StreamEnabled = Some False, StreamViewType = None\<rparr>
 \<and> getStreamUpdates None (Some \<lparr>StreamEnabled = Some True, StreamViewType = Some ''NEW_IMAGE''\<rparr>)
   = Some \<lparr>StreamEnabled = Some True, StreamViewType = Some ''NEW_IMAGE''\<rparr>
 \<and> getStreamUpdates (Some \<lparr>StreamEnabled = Some True, StreamViewType = None\<rparr>)
     (Some \<lparr>StreamEnabled = Some True, StreamViewType = Some ''KEYS_ONLY''\<rparr>) = None
 \<and> ut_StreamSpecification
      (updateTable_params None None (Some ''orders'') []
         (Some \<lparr>StreamEnabled = Some False, StreamViewType = None\<rparr>) None) = None"
  using getStreamUpdates_decision_table
          [where prevStream = "Some \<lparr>StreamEnabled = Some True, StreamViewType = Some ''NEW_IMAGE''\<rparr>"
             and strm = "Some \<lparr>StreamEnabled = None, StreamViewType = Some ''NEW_IMAGE''\<rparr>"]
        getStreamUpdates_decision_table
          [where prevStream = None
             and strm = "Some \<lparr>StreamEnabled = Some True, StreamViewType = Some ''NEW_IMAGE''\<rparr>"]
        getStreamUpdates_decision_table
          [where prevStream = "Some \<lparr>StreamEnabled = Some True, StreamViewType = None\<rparr>"
             and strm = "Some \<lparr>StreamEnabled = Some True, StreamViewType = Some ''KEYS_ONLY''\<rparr>"]
        getStreamUpdates_decision_table
          [where prevStream = "Some \<lparr>StreamEnabled = Some False, StreamViewType = None\<rparr>"
             and strm = None and prev = None and gsis = None and nm = "Some ''orders''"
             and attrs = "[]"]
  by simp

section \<open>The replica reconciler\<close>

text \<open>
  C3, as the claim states it, fails: the sorted lists are compared element by element, so a
  region that is repeated in one list makes them differ although the sets of regions are
  equal. With previous replicas \<open>us-east-1\<close> and desired replicas \<open>us-east-1\<close>, \<open>us-east-1\<close> the
  reconciler waits for the table and sends an update with no replica change.
\<close>

theorem updateReplicas_repeated_region_counterexample:
  "set (map RegionName [\<lparr>RegionName = ''us-east-1''\<rparr>])
     = set (map RegionName [\<lparr>RegionName = ''us-east-1''\<rparr>, \<lparr>RegionName = ''us-east-1''\<rparr>])
   \<and> updateReplicas steady_provider east (Some ''orders'')
        [\<lparr>RegionName = ''us-east-1''\<rparr>]
        [\<lparr>RegionName = ''us-east-1''\<rparr>, \<lparr>RegionName = ''us-east-1''\<rparr>] []
      = (Inr (), [Call east (WaitForTableExists (Some ''orders'')),
                  Call east (UpdateTableReq (replica_params (Some ''orders'') []))])"
  by (simp add: updateReplicas_def steady_provider_def waitForActive_def call_updateTable_def
      difference_def Let_def)

text \<open>
  C3, amended: the reconciler returns without any provider call exactly when the two lists
  hold the same region names the same number of times, in whatever order. When no region is
  repeated in either list, that is when the two sets of region names are equal. Reordering
  either list never changes whether it returns without a call.
\<close>

theorem updateReplicas_noop_iff_same_regions:
  "((updateReplicas pv dynamodb nm prev cur log = (Inr (), log))
       = (mset (map RegionName prev) = mset (map RegionName cur)))
 \<and> (distinct (map RegionName prev) \<and> distinct (map RegionName cur) \<longrightarrow>
      (updateReplicas pv dynamodb nm prev cur log = (Inr (), log))
        = (set (map RegionName prev) = set (map RegionName cur)))
 \<and> (mset prev' = mset prev \<and> mset cur' = mset cur \<longrightarrow>
      (updateReplicas pv dynamodb nm prev' cur' log = (Inr (), log))
        = (updateReplicas pv dynamodb nm prev cur log = (Inr (), log)))"
proof (intro conjI impI)
  show "(updateReplicas pv dynamodb nm prev cur log = (Inr (), log))
       = (mset (map RegionName prev) = mset (map RegionName cur))"
    by (rule updateReplicas_noop)
next
  assume "distinct (map RegionName prev) \<and> distinct (map RegionName cur)"
  then show "(updateReplicas pv dynamodb nm prev cur log = (Inr (), log))
        = (set (map RegionName prev) = set (map RegionName cur))"
    by (simp only: updateReplicas_noop) (metis set_eq_iff_mset_eq_distinct)
next
  assume "mset prev' = mset prev \<and> mset cur' = mset cur"
  then have "mset (map RegionName prev') = mset (map RegionName prev)"
    and "mset (map RegionName cur') = mset (map RegionName cur)"
    by (metis mset_map)+
  then show "(updateReplicas pv dynamodb nm prev' cur' log = (Inr (), log))
        = (updateReplicas pv dynamodb nm prev cur log = (Inr (), log))"
    by (simp only: updateReplicas_noop)
qed

text \<open>Two replicas, desired in the opposite order: no call.\<close>

theorem updateReplicas_noop_iff_same_regions_witness:
  "distinct (map RegionName [\<lparr>RegionName = ''us-east-1''\<rparr>, \<lparr>RegionName = ''eu-west-1''\<rparr>])
 \<and> distinct (map RegionName [\<lparr>RegionName = ''eu-west-1''\<rparr>, \<lparr>RegionName = ''us-east-1''\<rparr>])
 \<and> set (map RegionName [\<lparr>RegionName = ''us-east-1''\<rparr>, \<lparr>RegionName = ''eu-west-1''\<rparr>])
     = set (map RegionName [\<lparr>RegionName = ''eu-west-1''\<rparr>, \<lparr>RegionName = ''us-east-1''\<rparr>])
 \<and> updateReplicas steady_provider east (Some ''orders'')
      [\<lparr>RegionName = ''us-east-1''\<rparr>, \<lparr>RegionName = ''eu-west-1''\<rparr>]
      [\<lparr>RegionName = ''eu-west-1''\<rparr>, \<lparr>RegionName = ''us-east-1''\<rparr>] [] = (Inr (), [])"
proof -
  have d: "distinct (map RegionName [\<lparr>RegionName = ''us-east-1''\<rparr>, \<lparr>RegionName = ''eu-west-1''\<rparr>])
     \<and> distinct (map RegionName [\<lparr>RegionName = ''eu-west-1''\<rparr>, \<lparr>RegionName = ''us-east-1''\<rparr>])"
    by simp
  have s: "set (map RegionName [\<lparr>RegionName = ''us-east-1''\<rparr>, \<lparr>RegionName = ''eu-west-1''\<rparr>])
     = set (map RegionName [\<lparr>RegionName = ''eu-west-1''\<rparr>, \<lparr>RegionName = ''us-east-1''\<rparr>])"
    by auto
  from updateReplicas_noop_iff_same_regions
         [where pv = steady_provider and dynamodb = east and nm = "Some ''orders''"
            and prev = "[\<lparr>RegionName = ''us-east-1''\<rparr>, \<lparr>RegionName = ''eu-west-1''\<rparr>]"
            and cur = "[\<lparr>RegionName = ''eu-west-1''\<rparr>, \<lparr>RegionName = ''us-east-1''\<rparr>]"
            and log = "[]"]
  have "updateReplicas steady_provider east (Some ''orders'')
      [\<lparr>RegionName = ''us-east-1''\<rparr>, \<lparr>RegionName = ''eu-west-1''\<rparr>]
      [\<lparr>RegionName = ''eu-west-1''\<rparr>, \<lparr>RegionName = ''us-east-1''\<rparr>] [] = (Inr (), [])"
    using d s by blast
  with d s show ?thesis by blast
qed

section \<open>The region of an existing table\<close>

text \<open>
  C4: the client of the run is built with the effective region, and the check of the region
  is made only when that client finds the table. Here the table \<open>orders\<close> is in \<open>us-east-1\<close>,
  the region in the state, and the inputs ask for \<open>eu-west-1\<close>: the describe call, made in
  \<open>eu-west-1\<close>, finds nothing, and the run creates a second table there, succeeds, and puts
  the new region and identifier into the state.
\<close>

theorem deploy_region_change_creates_second_table:
  "describeTable regional_provider east (Some ''orders'') []
     = (Described
          \<lparr>t_arn = ''arn:aws:dynamodb:us-east-1:1:table/orders'', t_name = ''orders'',
           t_attributeDefinitions = [\<lparr>AttributeName = ''id'', AttributeType = ''S''\<rparr>],
           t_keySchema = [\<lparr>KeyAttributeName = ''id'', KeyType = ''HASH''\<rparr>],
           t_globalSecondaryIndexes = None, t_stream = None, t_streamArn = None,
           t_replicas = None\<rparr>,
        [Call east (DescribeTableReq (Some ''orders''))])
 \<and> state_region deployed_state = Some ''us-east-1''
 \<and> deploy regional_provider creds ''k3x9'' deployed_state
     (orders_inputs\<lparr>in_region := Some ''eu-west-1''\<rparr>)
   = (Inr \<lparr>out_name = Some ''orders'',
           out_arn = Some ''arn:aws:dynamodb:eu-west-1:1:table/orders'',
           out_region = Some ''eu-west-1'', out_streamArn = Some NoStreamArn\<rparr>,
      \<lparr>state_name = Some ''orders'',
       state_arn = Some ''arn:aws:dynamodb:eu-west-1:1:table/orders'',
       state_region = Some ''eu-west-1'',
       state_streamArn = Some NoStreamArn,
       state_deletionPolicy = None\<rparr>,
      [Call west (DescribeTableReq (Some ''orders'')),
       Call west (CreateTableReq
         \<lparr>ct_TableName = Some ''orders'',
          ct_AttributeDefinitions = [\<lparr>AttributeName = ''id'', AttributeType = ''S''\<rparr>],
          ct_KeySchema = [\<lparr>KeyAttributeName = ''id'', KeyType = ''HASH''\<rparr>],
          ct_GlobalSecondaryIndexes = None,
          ct_LocalSecondaryIndexes = None,
          ct_BillingMode = ''PAY_PER_REQUEST'',
          ct_StreamSpecification = Some \<lparr>StreamEnabled = Some False, StreamViewType = None\<rparr>\<rparr>)])"
  by (simp add: deploy_def creds_def mergeDeepRight_def defaults_def orders_inputs_def
      deployed_state_def resolve_name_def describeTable_def regional_provider_def
      steady_provider_def orders_table_def createTable_def finish_deploy_def updateReplicas_def
      east_def west_def Let_def)

section \<open>The table observer\<close>

text \<open>
  C5: a "resource not found" error becomes \<open>null\<close>. Any other provider error does not reach
  the caller: \<open>describeTable\<close> returns \<open>undefined\<close>, where \<open>deleteTable\<close> throws the same
  error again.
\<close>

theorem describeTable_swallows_other_errors:
  "describeTable absent_provider east (Some ''orders'') []
     = (JsNull, [Call east (DescribeTableReq (Some ''orders''))])
 \<and> describeTable denied_provider east (Some ''orders'') []
     = (JsUndefined, [Call east (DescribeTableReq (Some ''orders''))])
 \<and> deleteTable denied_provider east (Some ''orders'') []
     = (Inl (ProviderError (AwsError ''AccessDeniedException'')),
        [Call east (DeleteTableReq (Some ''orders''))])"
  by (simp add: describeTable_def deleteTable_def absent_provider_def denied_provider_def
      steady_provider_def)

section \<open>A deploy that finds nothing to change\<close>

text \<open>
  C6, as the claim states it, fails: with the same indexes, stream and replicas as the table
  has, the run still sends an update-table call, with the name, the attribute definitions and
  the billing mode, and it writes the desired deletion policy into the state. Here the state
  has no deletion policy and the inputs ask for \<open>delete\<close>.
\<close>

theorem deploy_converged_changes_state_counterexample:
  "deploy steady_provider creds ''k3x9'' deployed_state
     (orders_inputs\<lparr>in_deletionPolicy := Some ''delete''\<rparr>)
   = (Inr \<lparr>out_name = Some ''orders'',
           out_arn = Some ''arn:aws:dynamodb:us-east-1:1:table/orders'',
           out_region = Some ''us-east-1'', out_streamArn = Some NoStreamArn\<rparr>,
      deployed_state\<lparr>state_deletionPolicy := Some ''delete''\<rparr>,
      [Call east (DescribeTableReq (Some ''orders'')),
       Call east (UpdateTableReq
         \<lparr>ut_TableName = Some ''orders'',
          ut_AttributeDefinitions = Some [\<lparr>AttributeName = ''id'', AttributeType = ''S''\<rparr>],
          ut_BillingMode = Some ''PAY_PER_REQUEST'',
          ut_GlobalSecondaryIndexUpdates = None,
          ut_StreamSpecification = None,
          ut_ReplicaUpdates = None\<rparr>)])
   \<and> deployed_state\<lparr>state_deletionPolicy := Some ''delete''\<rparr> \<noteq> deployed_state"
  by (simp add: deploy_def creds_def mergeDeepRight_def defaults_def orders_inputs_def
      deployed_state_def resolve_name_def describeTable_def steady_provider_def orders_table_def
      east_def Let_def updateTable_def updateTable_params_def getGlobalIndexesUpdates_def
      toCreate_def toDelete_def getStreamUpdates_def isEmpty_updates_def finish_deploy_def
      updateReplicas_def)

text \<open>
  C6, amended: take a deploy with credentials, with the name and the region of the state, on
  a table that the provider describes the same way throughout the run, whose indexes have the
  desired names, whose stream is enabled exactly when the desired one is (its identifier
  being known when it is), and whose replicas are the desired regions; let the provider
  accept the update. Then the run succeeds; its update-table call carries the name, the
  attribute definitions and the billing mode, with no index update and no stream
  specification; when the stream is enabled the poller adds one pause and one describe; no
  replica call is made; and the state is the one below. So the state is unchanged whenever
  its identifier, stream identifier and deletion policy already are those of this run.
\<close>

theorem deploy_converged:
  fixes pv credentials rnd st inp data
  defines "cfg \<equiv> mergeDeepRight defaults inp"
  defines "dynamodb \<equiv> \<lparr>client_region = Some (region cfg), client_credentials = credentials\<rparr>"
  defines "request \<equiv>
     \<lparr>ut_TableName = name cfg, ut_AttributeDefinitions = Some (attributeDefinitions cfg),
      ut_BillingMode = Some ''PAY_PER_REQUEST'', ut_GlobalSecondaryIndexUpdates = None,
      ut_StreamSpecification = None, ut_ReplicaUpdates = None\<rparr>"
  defines "streamArn \<equiv>
     (if enabled (stream cfg) then StreamArn (string_of (LatestStreamArn data)) else NoStreamArn)"
  assumes creds: "credentials \<noteq> []"
    and named: "truthy (name cfg)" "state_name st = name cfg"
    and same_region: "state_region st = Some (region cfg)"
    and observed: "\<forall>log. describeTable_response pv log dynamodb (name cfg) = Inr data"
    and accepted: "\<exists>res. updateTable_response pv [Call dynamodb (DescribeTableReq (name cfg))] dynamodb request = Inr res"
    and same_indexes:
      "IndexName ` set (or_empty (GlobalSecondaryIndexes data)) = IndexName ` set (globalSecondaryIndexes cfg)"
    and same_stream: "(\<exists>p. StreamSpecification data = Some p \<and> enabled p) = enabled (stream cfg)"
    and arn_known: "enabled (stream cfg) \<longrightarrow> truthy (LatestStreamArn data)"
    and same_replicas:
      "mset (map RegionName (or_empty (Replicas data))) = mset (map RegionName (replicas cfg))"
  shows "deploy pv credentials rnd st inp =
           (Inr \<lparr>out_name = name cfg, out_arn = Some (TableArn data),
                 out_region = Some (region cfg), out_streamArn = Some streamArn\<rparr>,
            \<lparr>state_name = name cfg, state_arn = Some (TableArn data),
             state_region = Some (region cfg), state_streamArn = Some streamArn,
             state_deletionPolicy = deletionPolicy cfg\<rparr>,
            [Call dynamodb (DescribeTableReq (name cfg)), Call dynamodb (UpdateTableReq request)]
            @ (if enabled (stream cfg)
               then [Sleep 10000, Call dynamodb (DescribeTableReq (name cfg))] else []))
       \<and> (state_arn st = Some (TableArn data) \<and> state_streamArn st = Some streamArn
            \<and> state_deletionPolicy st = deletionPolicy cfg
          \<longrightarrow> fst (snd (deploy pv credentials rnd st inp)) = st)"
proof -
  have r: "resolve_name rnd st cfg = Inr (cfg, st)"
    using named by (simp add: resolve_name_def)
  have d: "describeTable_response pv [] dynamodb (name cfg) = Inr data"
    using observed by blast
  have params: "updateTable_params (GlobalSecondaryIndexes data) (Some (globalSecondaryIndexes cfg))
      (name cfg) (attributeDefinitions cfg) (StreamSpecification data) (Some (stream cfg)) = request"
    using same_indexes same_stream
    by (simp add: updateTable_params_def same_names_no_updates same_stream_no_update
        isEmpty_updates_def request_def)
  obtain res where u: "updateTable_response pv [Call dynamodb (DescribeTableReq (name cfg))] dynamodb request = Inr res"
    using accepted by blast
  have poll: "enabled (stream cfg) \<Longrightarrow>
      getStreamArn pv dynamodb (name cfg)
        [Call dynamodb (DescribeTableReq (name cfg)), Call dynamodb (UpdateTableReq request)]
      = (Inr (string_of (LatestStreamArn data)),
         [Call dynamodb (DescribeTableReq (name cfg)), Call dynamodb (UpdateTableReq request),
          Sleep 10000, Call dynamodb (DescribeTableReq (name cfg))])"
    using getStreamArn_first_round[of pv "[Call dynamodb (DescribeTableReq (name cfg)), Call dynamodb (UpdateTableReq request)]"
        dynamodb "name cfg" data] observed arn_known by simp
  have up: "updateTable pv dynamodb (GlobalSecondaryIndexes data) (Some (globalSecondaryIndexes cfg))
      (name cfg) (attributeDefinitions cfg) (StreamSpecification data) (Some (stream cfg))
      [Call dynamodb (DescribeTableReq (name cfg))]
    = (Inr (TableArn res, streamArn),
       [Call dynamodb (DescribeTableReq (name cfg)), Call dynamodb (UpdateTableReq request)]
       @ (if enabled (stream cfg)
          then [Sleep 10000, Call dynamodb (DescribeTableReq (name cfg))] else []))"
    unfolding updateTable_def params Let_def using u poll
    by (simp add: streamArn_def del: enabled.simps)
  have main: "deploy pv credentials rnd st inp =
           (Inr \<lparr>out_name = name cfg, out_arn = Some (TableArn data),
                 out_region = Some (region cfg), out_streamArn = Some streamArn\<rparr>,
            \<lparr>state_name = name cfg, state_arn = Some (TableArn data),
             state_region = Some (region cfg), state_streamArn = Some streamArn,
             state_deletionPolicy = deletionPolicy cfg\<rparr>,
            [Call dynamodb (DescribeTableReq (name cfg)), Call dynamodb (UpdateTableReq request)]
            @ (if enabled (stream cfg)
               then [Sleep 10000, Call dynamodb (DescribeTableReq (name cfg))] else []))"
    using creds r d same_region up same_replicas
    unfolding deploy_def cfg_def[symmetric]
    by (cases st)
       (simp add: dynamodb_def[symmetric] describeTable_def finish_deploy_def
          updateReplicas_same_regions
          del: enabled.simps)
  show ?thesis
  proof (intro conjI impI)
    show "deploy pv credentials rnd st inp =
           (Inr \<lparr>out_name = name cfg, out_arn = Some (TableArn data),
                 out_region = Some (region cfg), out_streamArn = Some streamArn\<rparr>,
            \<lparr>state_name = name cfg, state_arn = Some (TableArn data),
             state_region = Some (region cfg), state_streamArn = Some streamArn,
             state_deletionPolicy = deletionPolicy cfg\<rparr>,
            [Call dynamodb (DescribeTableReq (name cfg)), Call dynamodb (UpdateTableReq request)]
            @ (if enabled (stream cfg)
               then [Sleep 10000, Call dynamodb (DescribeTableReq (name cfg))] else []))"
      by (rule main)
  next
    assume "state_arn st = Some (TableArn data) \<and> state_streamArn st = Some streamArn
            \<and> state_deletionPolicy st = deletionPolicy cfg"
    with named same_region show "fst (snd (deploy pv credentials rnd st inp)) = st"
      unfolding main by (cases st) simp
  qed
qed


theorem deploy_converged_witness:
  "creds \<noteq> []
 \<and> truthy (name (mergeDeepRight defaults orders_inputs))
 \<and> state_name deployed_state = name (mergeDeepRight defaults orders_inputs)
 \<and> deploy steady_provider creds ''k3x9'' deployed_state orders_inputs
     = (Inr \<lparr>out_name = Some ''orders'',
             out_arn = Some ''arn:aws:dynamodb:us-east-1:1:table/orders'',
             out_region = Some ''us-east-1'', out_streamArn = Some NoStreamArn\<rparr>,
        deployed_state,
        [Call east (DescribeTableReq (Some ''orders'')),
         Call east (UpdateTableReq
           \<lparr>ut_TableName = Some ''orders'',
            ut_AttributeDefinitions = Some [\<lparr>AttributeName = ''id'', AttributeType = ''S''\<rparr>],
            ut_BillingMode = Some ''PAY_PER_REQUEST'',
            ut_GlobalSecondaryIndexUpdates = None,
            ut_StreamSpecification = None,
            ut_ReplicaUpdates = None\<rparr>)])
 \<and> fst (snd (deploy steady_provider creds ''k3x9'' deployed_state orders_inputs))
     = deployed_state"
proof -
  have cfg: "mergeDeepRight defaults orders_inputs =
     \<lparr>name = Some ''orders'',
      region = ''us-east-1'',
      attributeDefinitions = [\<lparr>AttributeName = ''id'', AttributeType = ''S''\<rparr>],
      keySchema = [\<lparr>KeyAttributeName = ''id'', KeyType = ''HASH''\<rparr>],
      globalSecondaryIndexes = [],
      localSecondaryIndexes = None,
      stream = \<lparr>StreamEnabled = Some False, StreamViewType = None\<rparr>,
      replicas = [],
      deletionPolicy = None\<rparr>"
    by (simp add: mergeDeepRight_def defaults_def orders_inputs_def)
  have h1: "creds \<noteq> []" by (simp add: creds_def)
  have h2: "truthy (name (mergeDeepRight defaults orders_inputs))"
    by (simp add: cfg)
  have h3: "state_name deployed_state = name (mergeDeepRight defaults orders_inputs)"
    by (simp add: cfg deployed_state_def)
  have h4: "state_region deployed_state = Some (region (mergeDeepRight defaults orders_inputs))"
    by (simp add: cfg deployed_state_def)
  have h5: "\<forall>log. describeTable_response steady_provider log
      \<lparr>client_region = Some (region (mergeDeepRight defaults orders_inputs)),
       client_credentials = creds\<rparr>
      (name (mergeDeepRight defaults orders_inputs)) = Inr orders_table"
    by (simp add: steady_provider_def)
  have h6: "\<exists>res. updateTable_response steady_provider
      [Call \<lparr>client_region = Some (region (mergeDeepRight defaults orders_inputs)),
             client_credentials = creds\<rparr>
         (DescribeTableReq (name (mergeDeepRight defaults orders_inputs)))]
      \<lparr>client_region = Some (region (mergeDeepRight defaults orders_inputs)),
       client_credentials = creds\<rparr>
      \<lparr>ut_TableName = name (mergeDeepRight defaults orders_inputs),
       ut_AttributeDefinitions = Some (attributeDefinitions (mergeDeepRight defaults orders_inputs)),
       ut_BillingMode = Some ''PAY_PER_REQUEST'', ut_GlobalSecondaryIndexUpdates = None,
       ut_StreamSpecification = None, ut_ReplicaUpdates = None\<rparr> = Inr res"
    by (simp add: steady_provider_def)
  have h7: "IndexName ` set (or_empty (GlobalSecondaryIndexes orders_table))
      = IndexName ` set (globalSecondaryIndexes (mergeDeepRight defaults orders_inputs))"
    by (simp add: cfg orders_table_def)
  have h8: "(\<exists>p. StreamSpecification orders_table = Some p \<and> enabled p)
      = enabled (stream (mergeDeepRight defaults orders_inputs))"
    by (simp add: cfg orders_table_def)
  have h9: "enabled (stream (mergeDeepRight defaults orders_inputs)) \<longrightarrow>
      truthy (LatestStreamArn orders_table)"
    by (simp add: cfg)
  have h10: "mset (map RegionName (or_empty (Replicas orders_table)))
      = mset (map RegionName (replicas (mergeDeepRight defaults orders_inputs)))"
    by (simp add: cfg orders_table_def)
  from deploy_converged[OF h1 h2 h3 h4 h5 h6 h7 h8 h9 h10, of "''k3x9''"] h1 h2 h3
  show ?thesis
    by (simp add: cfg orders_table_def deployed_state_def east_def)
qed

section \<open>The state after a failed deploy\<close>




section \<open>Removal\<close>

text \<open>
  C8: when the deletion policy in the state is not exactly \<open>delete\<close>, \<open>remove\<close> returns the
  empty object, makes no provider call and leaves the state as it is. When the policy is
  \<open>delete\<close> and the state has no name, \<open>remove\<close> returns without a value, again with no
  provider call and the state as it is.
\<close>

theorem remove_gated:
  "(state_deletionPolicy st \<noteq> Some ''delete'' \<longrightarrow>
      remove pv credentials st = (Inr EmptyObject, st, []))
 \<and> (state_deletionPolicy st = Some ''delete'' \<and> \<not> truthy (state_name st) \<longrightarrow>
      remove pv credentials st = (Inr ReturnedUndefined, st, []))"
  by (simp add: remove_def)

theorem remove_gated_witness:
  "state_deletionPolicy (deployed_state\<lparr>state_deletionPolicy := Some ''retain''\<rparr>) \<noteq> Some ''delete''
 \<and> remove steady_provider creds (deployed_state\<lparr>state_deletionPolicy := Some ''retain''\<rparr>)
     = (Inr EmptyObject, deployed_state\<lparr>state_deletionPolicy := Some ''retain''\<rparr>, [])
 \<and> state_deletionPolicy (empty_state\<lparr>state_deletionPolicy := Some ''delete''\<rparr>) = Some ''delete''
 \<and> \<not> truthy (state_name (empty_state\<lparr>state_deletionPolicy := Some ''delete''\<rparr>))
 \<and> remove steady_provider creds (empty_state\<lparr>state_deletionPolicy := Some ''delete''\<rparr>)
     = (Inr ReturnedUndefined, empty_state\<lparr>state_deletionPolicy := Some ''delete''\<rparr>, [])"
proof -
  have a: "state_deletionPolicy (deployed_state\<lparr>state_deletionPolicy := Some ''retain''\<rparr>)
      \<noteq> Some ''delete''"
    by simp
  have b: "state_deletionPolicy (empty_state\<lparr>state_deletionPolicy := Some ''delete''\<rparr>)
      = Some ''delete''
    \<and> \<not> truthy (state_name (empty_state\<lparr>state_deletionPolicy := Some ''delete''\<rparr>))"
    by (simp add: empty_state_def)
  from remove_gated[of "deployed_state\<lparr>state_deletionPolicy := Some ''retain''\<rparr>"
         steady_provider creds]
       remove_gated[of "empty_state\<lparr>state_deletionPolicy := Some ''delete''\<rparr>"
         steady_provider creds] a b
  show ?thesis by blast
qed

text \<open>
  C10: with the policy \<open>delete\<close> and a name in the state, when the provider answers the
  describe-table call with an error (the table is absent), \<open>remove\<close> fails with a \<open>TypeError\<close>
  on reading \<open>replicas\<close>, after the describe call alone and with the state as it was; when the
  provider answers with a table, \<open>remove\<close> does not fail in that way. \<open>deleteTable\<close> itself
  turns the "resource not found" error into the result \<open>false\<close>.
\<close>

theorem remove_absent_table_TypeError:
  fixes credentials :: "(string \<times> string) list"
  assumes "state_deletionPolicy st = Some ''delete''" and "truthy (state_name st)"
  defines "dynamodb \<equiv> \<lparr>client_region = state_region st, client_credentials = credentials\<rparr>"
  shows "(\<forall>err. describeTable_response pv [] dynamodb (state_name st) = Inl err \<longrightarrow>
           remove pv credentials st
             = (Inl TypeError, st, [Call dynamodb (DescribeTableReq (state_name st))]))
       \<and> (\<forall>data. describeTable_response pv [] dynamodb (state_name st) = Inr data \<longrightarrow>
           fst (remove pv credentials st) \<noteq> Inl TypeError)
       \<and> (\<forall>err log. deleteTable_response pv log dynamodb (state_name st) = Inl err
              \<and> code err = ''ResourceNotFoundException'' \<longrightarrow>
           deleteTable pv dynamodb (state_name st) log
             = (Inr False, log @ [Call dynamodb (DeleteTableReq (state_name st))]))"
  using assms(1,2) unfolding dynamodb_def
  by (auto simp: remove_def describeTable_def deleteTable_def deleteReplicas_def waitForActive_def
        call_updateTable_def Let_def split: sum.splits prod.splits if_splits)

theorem remove_absent_table_TypeError_witness:
  "state_deletionPolicy (deployed_state\<lparr>state_deletionPolicy := Some ''delete''\<rparr>) = Some ''delete''
 \<and> truthy (state_name (deployed_state\<lparr>state_deletionPolicy := Some ''delete''\<rparr>))
 \<and> remove absent_provider creds (deployed_state\<lparr>state_deletionPolicy := Some ''delete''\<rparr>)
     = (Inl TypeError, deployed_state\<lparr>state_deletionPolicy := Some ''delete''\<rparr>,
        [Call east (DescribeTableReq (Some ''orders''))])
 \<and> deleteTable absent_provider east (Some ''orders'') []
     = (Inr False, [Call east (DeleteTableReq (Some ''orders''))])
 \<and> fst (remove steady_provider creds (deployed_state\<lparr>state_deletionPolicy := Some ''delete''\<rparr>))
     \<noteq> Inl TypeError"
proof -
  have a: "state_deletionPolicy (deployed_state\<lparr>state_deletionPolicy := Some ''delete''\<rparr>)
      = Some ''delete''"
    by simp
  have b: "truthy (state_name (deployed_state\<lparr>state_deletionPolicy := Some ''delete''\<rparr>))"
    by (simp add: deployed_state_def)
  from remove_absent_table_TypeError[OF a b, of absent_provider creds]
       remove_absent_table_TypeError[OF a b, of steady_provider creds] a b
  show ?thesis
    by (simp add: absent_provider_def steady_provider_def deployed_state_def east_def)
qed

section \<open>The stream identifier poller\<close>

text \<open>
  C9: \<open>getStreamArn\<close> makes \<open>k\<close> rounds, between one and \<open>maxTries\<close> (five), each a pause of
  ten seconds followed by one describe-table call, and returns. Every round before the last
  saw a table without a stream identifier. In the last round, a table with a non-empty
  identifier makes the function return that identifier; a table without one means that all
  \<open>maxTries\<close> rounds were used and the function throws its own error; and \<open>null\<close> or
  \<open>undefined\<close> in place of a table makes it throw a \<open>TypeError\<close>. It never returns without a
  value.
\<close>

theorem getStreamArn_bounded_poll:
  "\<exists>k. 1 \<le> k \<and> k \<le> maxTries
     \<and> snd (getStreamArn pv d nm log) = log @ poll_rounds d nm k
     \<and> (\<forall>i<k - 1. \<exists>t. observation pv d nm log i = Described t \<and> \<not> truthy (t_streamArn t))
     \<and> (case observation pv d nm log (k - 1) of
           Described t \<Rightarrow>
             if truthy (t_streamArn t)
             then fst (getStreamArn pv d nm log) = Inr (string_of (t_streamArn t))
             else k = maxTries \<and> fst (getStreamArn pv d nm log) = Inl StreamArnError
         | JsNull \<Rightarrow> fst (getStreamArn pv d nm log) = Inl TypeError
         | JsUndefined \<Rightarrow> fst (getStreamArn pv d nm log) = Inl TypeError)"
proof -
  have "0 < maxTries" by (simp add: maxTries_def)
  from getStreamArn_loop_rounds[OF this, of pv d nm log] show ?thesis
    unfolding getStreamArn_def by (simp only: diff_zero)
qed

text \<open>
  The identifier appears at the third describe: three rounds. It never appears: five rounds
  and the error.
\<close>

theorem getStreamArn_bounded_poll_witness:
  "getStreamArn late_stream_provider east (Some ''orders'') []
     = (Inr ''arn:aws:dynamodb:us-east-1:1:table/orders/stream/1'',
        poll_rounds east (Some ''orders'') 3)
 \<and> getStreamArn steady_provider east (Some ''orders'') []
     = (Inl StreamArnError, poll_rounds east (Some ''orders'') 5)
 \<and> (\<exists>k. 1 \<le> k \<and> k \<le> maxTries
     \<and> snd (getStreamArn late_stream_provider east (Some ''orders'') [])
         = [] @ poll_rounds east (Some ''orders'') k
     \<and> (\<forall>i<k - 1. \<exists>t. observation late_stream_provider east (Some ''orders'') [] i = Described t
            \<and> \<not> truthy (t_streamArn t))
     \<and> (case observation late_stream_provider east (Some ''orders'') [] (k - 1) of
           Described t \<Rightarrow>
             if truthy (t_streamArn t)
             then fst (getStreamArn late_stream_provider east (Some ''orders'') [])
                    = Inr (string_of (t_streamArn t))
             else k = maxTries
                  \<and> fst (getStreamArn late_stream_provider east (Some ''orders'') [])
                      = Inl StreamArnError
         | JsNull \<Rightarrow> fst (getStreamArn late_stream_provider east (Some ''orders'') []) = Inl TypeError
         | JsUndefined \<Rightarrow>
             fst (getStreamArn late_stream_provider east (Some ''orders'') []) = Inl TypeError))"
proof -
  have late: "getStreamArn late_stream_provider east (Some ''orders'') []
     = (Inr ''arn:aws:dynamodb:us-east-1:1:table/orders/stream/1'',
        poll_rounds east (Some ''orders'') 3)"
    by (simp add: getStreamArn_def getStreamArn_loop.simps describeTable_def
        late_stream_provider_def steady_provider_def orders_table_def maxTries_def
        poll_rounds_def numeral_3_eq_3)
  have never: "getStreamArn steady_provider east (Some ''orders'') []
     = (Inl StreamArnError, poll_rounds east (Some ''orders'') 5)"
    by (simp add: getStreamArn_def getStreamArn_loop.simps describeTable_def
        steady_provider_def orders_table_def maxTries_def poll_rounds_def eval_nat_numeral)
  from getStreamArn_bounded_poll[of late_stream_provider east "Some ''orders''" "[]"] late never
  show ?thesis by (intro conjI)
qed

end
